theory Spec2Isabelle
  imports Main "HOL-Library.AList"
begin

section \<open>JavaScript values\<close>

text \<open>
  The reducers and thunks of the schema-validation plugin work on plain JavaScript
  objects. A value is one of the primitives, an error object (name and message), an array
  or a plain object. A plain object is the list of its own properties in insertion order;
  its prototype is \<open>Object.prototype\<close>. Numbers are the integer-valued ones. Dates,
  functions and BSON wrappers do not occur in the states and actions modelled here.
\<close>

datatype jsval =
    Undefined
  | Null
  | JBool bool
  | JNum int
  | JStr string
  | JErr string string
  | JArr "jsval list"
  | JObj "(string \<times> jsval) list"

type_synonym obj = "(string \<times> jsval) list"

text \<open>
  \<open>o.k\<close> for a key \<open>k\<close> that \<open>Object.prototype\<close> does not define: the own property,
  or \<open>undefined\<close>. All keys read this way below (\<open>type\<close>, \<open>validator\<close>,
  \<open>prevValidator\<close>, ...) are of that kind.
\<close>

definition js_get :: "obj \<Rightarrow> string \<Rightarrow> jsval" where
  "js_get ob k = (case map_of ob k of None \<Rightarrow> Undefined | Some v \<Rightarrow> v)"

text \<open>
  \<open>{...o, k: v}\<close>: the spread copies the own properties in order, the assignment
  overwrites the value of an existing key in place or appends a new key. This is
  \<open>AList.update k v o\<close>.
\<close>

definition TypeError :: "string \<Rightarrow> jsval" where
  "TypeError msg = JErr ''TypeError'' msg"

text \<open>JavaScript truthiness, as used by \<open>if (x)\<close>, \<open>!x\<close>, \<open>x ? a : b\<close> and \<open>&&\<close>.\<close>

fun truthy :: "jsval \<Rightarrow> bool" where
  "truthy Undefined = False"
| "truthy Null = False"
| "truthy (JBool b) = b"
| "truthy (JNum n) = (n \<noteq> 0)"
| "truthy (JStr s) = (s \<noteq> [])"
| "truthy (JErr n m) = True"
| "truthy (JArr xs) = True"
| "truthy (JObj ob) = True"

text \<open>
  Decimal digits of a natural number, for \<open>ToString\<close> of a number: an integer that a
  JavaScript number holds exactly prints as its digits (the numbers of this model stay
  below \<open>2^53\<close> in magnitude; from \<open>10^21\<close> on JavaScript prints an exponent).
\<close>

fun digit_char :: "nat \<Rightarrow> char" where
  "digit_char n = char_of (48 + n)"

function digits :: "nat \<Rightarrow> string" where
  "digits n = (if n < 10 then [digit_char n] else digits (n div 10) @ [digit_char (n mod 10)])"
  by pat_completeness auto
termination
  by (relation "measure id") auto

declare digits.simps [simp del]

definition number_to_string :: "int \<Rightarrow> string" where
  "number_to_string n = (if n < 0 then CHR ''-'' # digits (nat (- n)) else digits (nat n))"

text \<open>
  \<open>ToString\<close>, which \<open>'__result = ' + input\<close> and the property key of
  \<open>MAPPINGS[action.type]\<close> apply to a value that is not a string. A plain object goes
  through \<open>valueOf\<close> and \<open>toString\<close>: with the inherited \<open>toString\<close> the result is
  \<open>[object Object]\<close>; an own property \<open>toString\<close> (never a function in this model) hides
  it, and the conversion throws a TypeError. An array joins its elements with commas,
  \<open>undefined\<close> and \<open>null\<close> elements giving the empty string.
\<close>

fun to_string :: "jsval \<Rightarrow> jsval + string"
  and join_elements :: "jsval list \<Rightarrow> jsval + string" where
  "to_string Undefined = Inr ''undefined''"
| "to_string Null = Inr ''null''"
| "to_string (JBool b) = Inr (if b then ''true'' else ''false'')"
| "to_string (JNum n) = Inr (number_to_string n)"
| "to_string (JStr s) = Inr s"
| "to_string (JErr n m) = Inr (if n = [] then m else if m = [] then n else n @ '': '' @ m)"
| "to_string (JArr xs) = join_elements xs"
| "to_string (JObj ob) =
     (if ''toString'' \<in> set (map fst ob)
      then Inl (TypeError ''Cannot convert object to primitive value'')
      else Inr ''[object Object]'')"
| "join_elements [] = Inr []"
| "join_elements (x # xs) =
     (case (if x = Undefined \<or> x = Null then Inr [] else to_string x) of
        Inl e \<Rightarrow> Inl e
      | Inr s \<Rightarrow>
          (if xs = [] then Inr s
           else (case join_elements xs of Inl e \<Rightarrow> Inl e | Inr r \<Rightarrow> Inr (s @ '','' @ r))))"

text \<open>
  \<open>v[i]\<close> and \<open>v.k\<close> on an arbitrary value: reading a property of \<open>undefined\<close> or
  \<open>null\<close> throws a TypeError; an index past the end of an array, and a key a value does
  not have, give \<open>undefined\<close>. The keys read with \<open>get_prop\<close> below (\<open>options\<close>,
  \<open>ns\<close>, \<open>database\<close>) are properties of no string, number, boolean, array or error.
\<close>

definition get_index :: "jsval \<Rightarrow> nat \<Rightarrow> jsval + jsval" where
  "get_index v i =
     (case v of
        Undefined \<Rightarrow>
          Inl (TypeError (''Cannot read property '' @ number_to_string (int i) @ '' of undefined''))
      | Null \<Rightarrow>
          Inl (TypeError (''Cannot read property '' @ number_to_string (int i) @ '' of null''))
      | JArr xs \<Rightarrow> Inr (if i < length xs then xs ! i else Undefined)
      | JStr s \<Rightarrow> Inr (if i < length s then JStr [s ! i] else Undefined)
      | JObj ob \<Rightarrow> Inr (js_get ob (number_to_string (int i)))
      | _ \<Rightarrow> Inr Undefined)"

definition get_prop :: "jsval \<Rightarrow> string \<Rightarrow> jsval + jsval" where
  "get_prop v k =
     (case v of
        Undefined \<Rightarrow> Inl (TypeError (''Cannot read property '' @ k @ '' of undefined''))
      | Null \<Rightarrow> Inl (TypeError (''Cannot read property '' @ k @ '' of null''))
      | JObj ob \<Rightarrow> Inr (js_get ob k)
      | _ \<Rightarrow> Inr Undefined)"

section \<open>Lookup in a mapping table\<close>

text \<open>
  Every reducer of the plugin finds its handler with \<open>MAPPINGS[action.type]\<close>, where
  \<open>MAPPINGS\<close> is an object literal. A property read on an object literal first looks
  at the own keys and then at \<open>Object.prototype\<close>, so the read finds a handler, a member
  inherited from \<open>Object.prototype\<close>, or nothing (\<open>undefined\<close>).
\<close>

datatype 'h member = Own 'h | Inherited string | Missing

definition Object_prototype_names :: "string list" where
  "Object_prototype_names =
     [''constructor'', ''__defineGetter__'', ''__defineSetter__'', ''hasOwnProperty'',
      ''__lookupGetter__'', ''__lookupSetter__'', ''isPrototypeOf'',
      ''propertyIsEnumerable'', ''toString'', ''valueOf'', ''__proto__'',
      ''toLocaleString'']"

definition table_get :: "(string \<times> 'h) list \<Rightarrow> string \<Rightarrow> 'h member" where
  "table_get tbl k =
     (case map_of tbl k of
        Some h \<Rightarrow> Own h
      | None \<Rightarrow> (if k \<in> set Object_prototype_names then Inherited k else Missing))"

text \<open>
  Every inherited member is truthy, so \<open>fn ? fn(state, action) : state\<close> calls it, as a
  plain function (\<open>this\<close> is \<open>undefined\<close>) on the state object. \<open>Object(state)\<close> returns
  the object it is given; \<open>toString\<close> answers for \<open>undefined\<close>; \<open>__proto__\<close> reads as
  the prototype object, which is not callable; the other members convert \<open>this\<close> to an
  object first, which throws for \<open>undefined\<close>.
\<close>

definition call_inherited :: "string \<Rightarrow> jsval \<Rightarrow> jsval + jsval" where
  "call_inherited k state =
     (if k = ''constructor'' then Inr state
      else if k = ''toString'' then Inr (JStr ''[object Undefined]'')
      else if k = ''__proto__'' then Inl (TypeError ''fn is not a function'')
      else Inl (TypeError ''Cannot convert undefined or null to object''))"

section \<open>The validation module (src/modules/validation.js)\<close>

text \<open>
  The module calls three libraries that are not part of the repository: \<open>context-eval\<close>
  (\<open>new Context(sandbox).evaluate(text)\<close> runs the text as JavaScript in a fresh V8
  context, the sandbox being the constant object of \<open>getQuerySandbox\<close>),
  \<open>javascript-stringify\<close> and \<open>mongodb-extended-json\<close>. They are parameters of the
  model. An evaluation returns a value (\<open>Inr\<close>) or throws one (\<open>Inl\<close>).
\<close>

record env =
  evaluate :: "string \<Rightarrow> jsval + jsval"
  javascriptStringify :: "jsval \<Rightarrow> jsval"
  EJSON_stringify :: "jsval \<Rightarrow> jsval"

definition VALIDATOR_CHANGED :: string where
  "VALIDATOR_CHANGED = ''validation/VALIDATOR_CHANGED''"

definition VALIDATOR_CANCELED :: string where
  "VALIDATOR_CANCELED = ''validation/VALIDATOR_CANCELED''"

definition VALIDATOR_SAVED :: string where
  "VALIDATOR_SAVED = ''validation/VALIDATOR_SAVED''"

definition VALIDATOR_CREATED :: string where
  "VALIDATOR_CREATED = ''validation/VALIDATOR_CREATED''"

definition VALIDATION_ACTION_CHANGED :: string where
  "VALIDATION_ACTION_CHANGED = ''validation/VALIDATION_ACTION_CHANGED''"

definition VALIDATION_LEVEL_CHANGED :: string where
  "VALIDATION_LEVEL_CHANGED = ''validation/VALIDATION_LEVEL_CHANGED''"

definition INITIAL_STATE :: obj where
  "INITIAL_STATE =
     [(''validator'', JStr []),
      (''validationAction'', JStr ''warning''),
      (''validationLevel'', JStr ''moderate''),
      (''isChanged'', JBool False),
      (''syntaxError'', Null)]"

text \<open>\<open>ctx.evaluate('__result = ' + input)\<close>; the concatenation converts the input to a string.\<close>

definition executeJavascript :: "env \<Rightarrow> jsval \<Rightarrow> jsval + jsval" where
  "executeJavascript env input =
     (case to_string input of
        Inl e \<Rightarrow> Inl e
      | Inr s \<Rightarrow> evaluate env (''__result = '' @ s))"

text \<open>The \<open>try\<close>/\<open>catch\<close> of \<open>checkValidator\<close>: a thrown value becomes \<open>syntaxError\<close>.\<close>

definition checkValidator :: "env \<Rightarrow> jsval \<Rightarrow> obj" where
  "checkValidator env validator =
     (let validation = [(''syntaxError'', Null), (''validator'', validator)]
      in case executeJavascript env validator of
           Inr res \<Rightarrow> AList.update ''validator'' res validation
         | Inl error \<Rightarrow> AList.update ''syntaxError'' error validation)"

definition changeValidator :: "env \<Rightarrow> obj \<Rightarrow> obj \<Rightarrow> obj" where
  "changeValidator env state action =
     (let validation = checkValidator env (js_get action ''validator'')
      in AList.update ''syntaxError'' (js_get validation ''syntaxError'')
           (AList.update ''validator'' (js_get action ''validator'')
              (AList.update ''isChanged'' (JBool True) state)))"

definition cancelValidator :: "obj \<Rightarrow> obj" where
  "cancelValidator state =
     AList.update ''syntaxError'' Null
       (AList.update ''validator'' (js_get state ''prevValidator'')
          (AList.update ''isChanged'' (JBool False) state))"

definition updateValidator :: "obj \<Rightarrow> obj \<Rightarrow> obj" where
  "updateValidator state action =
     AList.update ''syntaxError'' Null
       (AList.update ''validator'' (js_get action ''validator'')
          (AList.update ''isChanged'' (JBool False) state))"

definition createValidator :: "env \<Rightarrow> obj \<Rightarrow> obj \<Rightarrow> obj" where
  "createValidator env state action =
     (let validation = checkValidator env (js_get action ''validator'');
          validator = javascriptStringify env (js_get validation ''validator'')
      in AList.update ''syntaxError'' Null
           (AList.update ''validator'' validator
              (AList.update ''prevValidator'' validator
                 (AList.update ''isChanged'' (JBool False) state))))"

definition changeValidationAction :: "obj \<Rightarrow> obj \<Rightarrow> obj" where
  "changeValidationAction state action =
     AList.update ''validationAction'' (js_get action ''validationAction'') state"

definition changeValidationLevel :: "obj \<Rightarrow> obj \<Rightarrow> obj" where
  "changeValidationLevel state action =
     AList.update ''validationLevel'' (js_get action ''validationLevel'') state"

definition MAPPINGS :: "(string \<times> (env \<Rightarrow> obj \<Rightarrow> obj \<Rightarrow> obj)) list" where
  "MAPPINGS =
     [(VALIDATOR_CHANGED, changeValidator),
      (VALIDATOR_CANCELED, \<lambda>env state action. cancelValidator state),
      (VALIDATOR_CREATED, createValidator),
      (VALIDATOR_SAVED, \<lambda>env state action. updateValidator state action),
      (VALIDATION_ACTION_CHANGED, \<lambda>env state action. changeValidationAction state action),
      (VALIDATION_LEVEL_CHANGED, \<lambda>env state action. changeValidationLevel state action)]"

text \<open>
  \<open>reducer(state = INITIAL_STATE, action)\<close>: the state is \<open>undefined\<close> (\<open>None\<close>, the
  default applies) or a state object. The call returns a value or throws.
\<close>

definition reducer :: "env \<Rightarrow> obj option \<Rightarrow> obj \<Rightarrow> jsval + jsval" where
  "reducer env state action =
     (let state = (case state of None \<Rightarrow> INITIAL_STATE | Some s \<Rightarrow> s)
      in case to_string (js_get action ''type'') of
           Inl e \<Rightarrow> Inl e
         | Inr k \<Rightarrow>
             (case table_get MAPPINGS k of
                Own fn \<Rightarrow> Inr (JObj (fn env state action))
              | Inherited m \<Rightarrow> call_inherited m (JObj state)
              | Missing \<Rightarrow> Inr (JObj state)))"

definition validationActionChanged :: "jsval \<Rightarrow> obj" where
  "validationActionChanged validationAction =
     [(''type'', JStr VALIDATION_ACTION_CHANGED), (''validationAction'', validationAction)]"

definition validationLevelChanged :: "jsval \<Rightarrow> obj" where
  "validationLevelChanged validationLevel =
     [(''type'', JStr VALIDATION_LEVEL_CHANGED), (''validationLevel'', validationLevel)]"

definition validatorChanged :: "jsval \<Rightarrow> obj" where
  "validatorChanged validator = [(''type'', JStr VALIDATOR_CHANGED), (''validator'', validator)]"

definition validatorCreated :: "jsval \<Rightarrow> obj" where
  "validatorCreated validator = [(''type'', JStr VALIDATOR_CREATED), (''validator'', validator)]"

definition validatorCanceled :: obj where
  "validatorCanceled = [(''type'', JStr VALIDATOR_CANCELED)]"

definition validatorSaved :: "jsval \<Rightarrow> obj" where
  "validatorSaved validator = [(''type'', JStr VALIDATOR_SAVED), (''validator'', validator)]"

section \<open>The earlier validation module (src/unnamed/part_005)\<close>

text \<open>
  The repository holds an earlier text of the validation module. Its handlers for the
  canceled and saved actions, and the callback of its \<open>fetchValidation\<close>, are modelled
  with the prefix \<open>p5\<close>.
\<close>

definition p5_cancelValidator :: "obj \<Rightarrow> obj" where
  "p5_cancelValidator state =
     AList.update ''syntaxError'' Null
       (AList.update ''validator'' (JStr [])
          (AList.update ''isChanged'' (JBool False) state))"

definition p5_saveValidator :: "obj \<Rightarrow> obj \<Rightarrow> obj" where
  "p5_saveValidator state action =
     AList.update ''syntaxError'' Null
       (AList.update ''validator'' (js_get action ''validator'')
          (AList.update ''isChanged'' (JBool False) state))"

section \<open>The sample-documents module (src/unnamed/part_003 and part_004)\<close>

text \<open>
  The two texts of the module share the reducer and the action creators (prefix \<open>sd\<close>
  where a name is also used by the validation module); they differ in
  \<open>fetchSampleDocuments\<close> (prefixes \<open>p3\<close> and \<open>p4\<close>).
\<close>

definition SAMPLE_DOCUMENTS_FETCHED :: string where
  "SAMPLE_DOCUMENTS_FETCHED = ''validation/namespace/SAMPLE_DOCUMENTS_FETCHED''"

definition LOADING_SAMPLE_DOCUMENTS :: string where
  "LOADING_SAMPLE_DOCUMENTS = ''validation/namespace/LOADING_SAMPLE_DOCUMENTS''"

definition sd_INITIAL_STATE :: obj where
  "sd_INITIAL_STATE = [(''matching'', Null), (''notmatching'', Null), (''isLoading'', JBool False)]"

definition MAX_LIMIT :: int where
  "MAX_LIMIT = 100000"

definition refreshSampleDocuments :: "obj \<Rightarrow> obj \<Rightarrow> obj" where
  "refreshSampleDocuments state action =
     AList.update ''isLoading'' (JBool False)
       (AList.update ''notmatching'' (js_get action ''notmatching'')
          (AList.update ''matching'' (js_get action ''matching'') state))"

definition sampleDocumentsFetched :: "obj \<Rightarrow> obj" where
  "sampleDocumentsFetched sampleDocuments =
     [(''type'', JStr SAMPLE_DOCUMENTS_FETCHED),
      (''matching'', js_get sampleDocuments ''matching''),
      (''notmatching'', js_get sampleDocuments ''notmatching'')]"

definition loadSampleDocuments :: "obj \<Rightarrow> obj" where
  "loadSampleDocuments state =
     AList.update ''isLoading'' (JBool True)
       (AList.update ''type'' (JStr LOADING_SAMPLE_DOCUMENTS) state)"

definition loadingSampleDocuments :: obj where
  "loadingSampleDocuments = [(''type'', JStr LOADING_SAMPLE_DOCUMENTS)]"

definition sd_MAPPINGS :: "(string \<times> (obj \<Rightarrow> obj \<Rightarrow> obj)) list" where
  "sd_MAPPINGS =
     [(SAMPLE_DOCUMENTS_FETCHED, refreshSampleDocuments),
      (LOADING_SAMPLE_DOCUMENTS, \<lambda>state action. loadSampleDocuments state)]"

definition sd_reducer :: "obj option \<Rightarrow> obj \<Rightarrow> jsval + jsval" where
  "sd_reducer state action =
     (let state = (case state of None \<Rightarrow> sd_INITIAL_STATE | Some s \<Rightarrow> s)
      in case to_string (js_get action ''type'') of
           Inl e \<Rightarrow> Inl e
         | Inr k \<Rightarrow>
             (case table_get sd_MAPPINGS k of
                Own fn \<Rightarrow> Inr (JObj (fn state action))
              | Inherited m \<Rightarrow> call_inherited m (JObj state)
              | Missing \<Rightarrow> Inr (JObj state)))"

section \<open>Thunks and the data service\<close>

text \<open>
  The thunks talk to the store through \<open>dispatch\<close> and \<open>getState\<close> and to the database
  through the data service, whose methods take a callback. The data service is a
  parameter: each method is the function from its arguments to the arguments the callback
  is called with, once. A thunk, run together with the callbacks it registers, is the list
  of the effects it performs, in order, and the exception that ends it, if any.
\<close>

datatype effect =
    Dispatch obj
  | ListCollections jsval obj
  | Command jsval obj
  | Find jsval jsval obj
  | Count jsval jsval obj
  | Aggregate jsval "jsval list" obj
  | CursorClose
  | ConsoleLog jsval

type_synonym run = "effect list \<times> jsval option"

definition finished :: "effect list \<Rightarrow> run" where
  "finished es = (es, None)"

definition threw :: "jsval \<Rightarrow> run" where
  "threw e = ([], Some e)"

definition prefixed :: "effect list \<Rightarrow> run \<Rightarrow> run" where
  "prefixed es r = (es @ fst r, snd r)"

text \<open>The actions a run dispatches, in order.\<close>

definition dispatched :: "run \<Rightarrow> obj list" where
  "dispatched r = concat (map (\<lambda>e. case e of Dispatch a \<Rightarrow> [a] | _ \<Rightarrow> []) (fst r))"

record dataService =
  ds_listCollections :: "jsval \<Rightarrow> obj \<Rightarrow> jsval \<times> jsval"
  ds_command :: "jsval \<Rightarrow> obj \<Rightarrow> jsval \<times> jsval"
  ds_find :: "jsval \<Rightarrow> jsval \<Rightarrow> obj \<Rightarrow> jsval \<times> jsval"
  ds_count :: "jsval \<Rightarrow> jsval \<Rightarrow> obj \<Rightarrow> jsval \<times> int"
  ds_aggregate :: "jsval \<Rightarrow> jsval list \<Rightarrow> obj \<Rightarrow> jsval \<times> jsval \<times> jsval"

text \<open>
  What \<open>getState()\<close> returns: \<open>state.dataService.dataService\<close> (\<open>None\<close> while it is
  \<open>null\<close>), \<open>state.namespace\<close>, and the slices of the two reducers.
\<close>

record store_state =
  st_dataService :: "dataService option"
  st_namespace :: jsval
  st_validation :: obj
  st_sampleDocuments :: obj

text \<open>
  \<open>defaults(object, source)\<close> of lodash: every key of the source whose value in the
  object is \<open>undefined\<close> is assigned from the source.
\<close>

definition defaults :: "obj \<Rightarrow> obj \<Rightarrow> obj" where
  "defaults object source =
     fold (\<lambda>kv ob. if js_get ob (fst kv) = Undefined then AList.update (fst kv) (snd kv) ob else ob)
          source object"

text \<open>
  \<open>v.k\<close> for a value known to be neither \<open>undefined\<close> nor \<open>null\<close>, so that the read
  cannot throw (\<open>options\<close> after \<open>!error && options\<close>, \<open>namespace\<close> after
  \<open>namespace.database\<close>).
\<close>

definition js_member :: "jsval \<Rightarrow> string \<Rightarrow> jsval" where
  "js_member v k = (case v of JObj ob \<Rightarrow> js_get ob k | _ \<Rightarrow> Undefined)"

subsection \<open>fetchValidation\<close>

definition fetchValidation_callback :: "env \<Rightarrow> jsval \<Rightarrow> jsval \<Rightarrow> run" where
  "fetchValidation_callback env error data =
     (case get_index data 0 of
        Inl e \<Rightarrow> threw e
      | Inr d0 \<Rightarrow>
          (case get_prop d0 ''options'' of
             Inl e \<Rightarrow> threw e
           | Inr options \<Rightarrow>
               (let validation0 =
                      [(''validator'', js_get INITIAL_STATE ''validator''),
                       (''validationAction'', js_get INITIAL_STATE ''validationAction''),
                       (''validationLevel'', js_get INITIAL_STATE ''validationLevel'')];
                    validation =
                      (if truthy error then validation0
                       else if truthy options
                       then defaults
                              [(''validator'', js_member options ''validator''),
                               (''validationAction'', js_member options ''validationAction''),
                               (''validationLevel'', js_member options ''validationLevel'')]
                              validation0
                       else validation0)
                in finished
                     [Dispatch (validatorCreated (EJSON_stringify env (js_get validation ''validator''))),
                      Dispatch (validationActionChanged (js_get validation ''validationAction'')),
                      Dispatch (validationLevelChanged (js_get validation ''validationLevel''))])))"

definition fetchValidation :: "env \<Rightarrow> jsval \<Rightarrow> store_state \<Rightarrow> run" where
  "fetchValidation env namespace state =
     (case st_dataService state of
        None \<Rightarrow> finished []
      | Some dataService \<Rightarrow>
          (case get_prop namespace ''database'' of
             Inl e \<Rightarrow> threw e
           | Inr database \<Rightarrow>
               (let filter = [(''name'', js_member namespace ''collection'')];
                    answer = ds_listCollections dataService database filter
                in prefixed [ListCollections database filter]
                     (fetchValidation_callback env (fst answer) (snd answer)))))"

text \<open>The callback of the earlier \<open>fetchValidation\<close> (part_005) dispatches nothing.\<close>

definition p5_fetchValidation_callback :: "jsval \<Rightarrow> jsval \<Rightarrow> run" where
  "p5_fetchValidation_callback error data =
     (case get_index data 0 of
        Inl e \<Rightarrow> threw e
      | Inr d0 \<Rightarrow>
          (case get_prop d0 ''options'' of
             Inl e \<Rightarrow> threw e
           | Inr options \<Rightarrow> finished []))"

subsection \<open>saveValidation\<close>

definition saveValidation_callback :: "jsval \<Rightarrow> jsval \<Rightarrow> jsval \<Rightarrow> run" where
  "saveValidation_callback validator error data =
     finished
       [ConsoleLog (JStr ''error----------------------''),
        ConsoleLog error,
        ConsoleLog (JStr ''----------------------''),
        ConsoleLog (JStr ''data----------------------''),
        ConsoleLog data,
        ConsoleLog (JStr ''----------------------''),
        Dispatch (validatorSaved validator)]"

definition saveValidation :: "env \<Rightarrow> jsval \<Rightarrow> store_state \<Rightarrow> run" where
  "saveValidation env validator state =
     (let namespace = st_namespace state;
          validation = checkValidator env validator
      in case st_dataService state of
           None \<Rightarrow> finished []
         | Some dataService \<Rightarrow>
             (case get_prop namespace ''database'' of
                Inl e \<Rightarrow> threw e
              | Inr database \<Rightarrow>
                  (let command =
                         [(''collMod'', js_member namespace ''collection''),
                          (''validator'', js_get validation ''validator''),
                          (''validationLevel'', JStr ''moderate'')];
                       answer = ds_command dataService database command
                   in prefixed [Command database command]
                        (saveValidation_callback validator (fst answer) (snd answer)))))"

subsection \<open>fetchSampleDocuments, first text (part_003): two finds\<close>

text \<open>
  \<open>checkValidator\<close> is imported from the validation module. Both texts compute the
  query the same way, by checking the validator and checking the result again
  (\<open>sample_query\<close>), and end a successful fetch with the same dispatch of
  \<open>sampleDocumentsFetched\<close>, where \<open>matching[0]\<close> and \<open>notmatching[0]\<close> are read
  from the two answers (\<open>dispatch_fetched\<close>).
\<close>

definition sample_query :: "env \<Rightarrow> jsval \<Rightarrow> jsval" where
  "sample_query env validator =
     (let checkedValidator = checkValidator env validator
      in js_get (checkValidator env (js_get checkedValidator ''validator'')) ''validator'')"

definition dispatch_fetched :: "jsval \<Rightarrow> jsval \<Rightarrow> run" where
  "dispatch_fetched matching notmatching =
     (case get_index matching 0 of
        Inl e \<Rightarrow> threw e
      | Inr m0 \<Rightarrow>
          (case get_index notmatching 0 of
             Inl e \<Rightarrow> threw e
           | Inr n0 \<Rightarrow>
               finished
                 [Dispatch (sampleDocumentsFetched
                    [(''matching'', if truthy m0 then m0 else Null),
                     (''notmatching'', if truthy n0 then n0 else Null)])]))"

definition OPTIONS :: obj where
  "OPTIONS = [(''maxTimeMS'', JNum 5000), (''limit'', JNum 1)]"

definition p3_notmatching_callback :: "jsval \<Rightarrow> jsval \<Rightarrow> jsval \<Rightarrow> run" where
  "p3_notmatching_callback matching notmatchingError notmatching =
     (if truthy notmatchingError then finished []
      else dispatch_fetched matching notmatching)"

definition p3_matching_callback ::
  "dataService \<Rightarrow> jsval \<Rightarrow> jsval \<Rightarrow> jsval \<Rightarrow> jsval \<Rightarrow> run" where
  "p3_matching_callback dataService namespace query matchingError matching =
     (if truthy matchingError then finished []
      else (let filter = JObj [(''$nor'', JArr [query])];
                answer = ds_find dataService namespace filter OPTIONS
            in prefixed [Find namespace filter OPTIONS]
                 (p3_notmatching_callback matching (fst answer) (snd answer))))"

definition p3_fetchSampleDocuments :: "env \<Rightarrow> jsval \<Rightarrow> store_state \<Rightarrow> run" where
  "p3_fetchSampleDocuments env validator state =
     prefixed [Dispatch loadingSampleDocuments]
       (case get_prop (st_namespace state) ''ns'' of
          Inl e \<Rightarrow> threw e
        | Inr namespace \<Rightarrow>
            (let query = sample_query env validator
             in case st_dataService state of
                  None \<Rightarrow> finished []
                | Some dataService \<Rightarrow>
                    (let answer = ds_find dataService namespace query OPTIONS
                     in prefixed [Find namespace query OPTIONS]
                          (p3_matching_callback dataService namespace query
                             (fst answer) (snd answer)))))"

subsection \<open>fetchSampleDocuments, second text (part_004): count and two aggregations\<close>

text \<open>
  \<open>syntaxErrorOccurred\<close> is imported from a text of the validation module that the
  repository does not hold; the action creator is a parameter. An aggregation answers
  with its error, the error of \<open>cursor.toArray\<close> and the documents.
\<close>

definition zeroDocuments :: "(jsval \<Rightarrow> obj) \<Rightarrow> jsval \<Rightarrow> run" where
  "zeroDocuments syntaxErrorOccurred error =
     finished
       [Dispatch (syntaxErrorOccurred error),
        Dispatch (sampleDocumentsFetched [(''matching'', Null), (''notmatching'', Null)])]"

definition getSampleDocuments ::
  "(jsval \<Rightarrow> obj) \<Rightarrow> dataService \<Rightarrow> jsval \<Rightarrow> int \<Rightarrow> jsval list \<Rightarrow> (jsval \<Rightarrow> run) \<Rightarrow> run" where
  "getSampleDocuments syntaxErrorOccurred dataService namespace count pipeline callback =
     (let aggOptions = [(''allowDiskUse'', JBool True)];
          limited = (if count > MAX_LIMIT
                     then JObj [(''$limit'', JNum MAX_LIMIT)] # pipeline
                     else pipeline);
          answer = ds_aggregate dataService namespace limited aggOptions;
          aggError = fst answer;
          toArrayError = fst (snd answer);
          documents = snd (snd answer)
      in prefixed [Aggregate namespace limited aggOptions]
           (if truthy aggError then zeroDocuments syntaxErrorOccurred aggError
            else if truthy toArrayError then zeroDocuments syntaxErrorOccurred toArrayError
            else prefixed [CursorClose] (callback documents)))"

definition p4_fetchSampleDocuments ::
  "env \<Rightarrow> (jsval \<Rightarrow> obj) \<Rightarrow> jsval \<Rightarrow> store_state \<Rightarrow> run" where
  "p4_fetchSampleDocuments env syntaxErrorOccurred validator state =
     prefixed [Dispatch loadingSampleDocuments]
       (case get_prop (st_namespace state) ''ns'' of
          Inl e \<Rightarrow> threw e
        | Inr namespace \<Rightarrow>
            (let query = sample_query env validator;
                 pipeline = [JObj [(''$match'', query)], JObj [(''$limit'', JNum 1)]]
             in case st_dataService state of
                  None \<Rightarrow> finished []
                | Some dataService \<Rightarrow>
                    (let answer = ds_count dataService namespace query [];
                         countError = fst answer;
                         count = snd answer
                     in prefixed [Count namespace query []]
                          (if truthy countError then zeroDocuments syntaxErrorOccurred countError
                           else getSampleDocuments syntaxErrorOccurred dataService namespace
                                  count pipeline
                                  (\<lambda>matching.
                                     getSampleDocuments syntaxErrorOccurred dataService
                                       namespace count
                                       [JObj [(''$match'', JObj [(''$nor'', JArr [query])])],
                                        JObj [(''$limit'', JNum 1)]]
                                       (\<lambda>notmatching.
                                          dispatch_fetched matching notmatching))))))"

section \<open>Example inputs\<close>

text \<open>
  The libraries on the few texts and values the examples below use: what V8 answers when
  it evaluates the text, and what the two stringifiers print. An assignment without a
  right-hand side does not parse; neither does \<open>[object Object]\<close> as a right-hand side.
  An assignment evaluates to the value assigned.
\<close>

definition engine_answers :: "(string \<times> (jsval + jsval)) list" where
  "engine_answers =
     [(''__result = '', Inl (JErr ''SyntaxError'' ''Unexpected end of input'')),
      (''__result = {}'', Inr (JObj [])),
      (''__result = [object Object]'', Inl (JErr ''SyntaxError'' ''Unexpected identifier'')),
      (''__result = [1]'', Inr (JArr [JNum 1])),
      (''__result = 1'', Inr (JNum 1))]"

definition engine :: env where
  "engine =
     \<lparr> evaluate =
         (\<lambda>text. case map_of engine_answers text of
                    Some answer \<Rightarrow> answer
                  | None \<Rightarrow> Inl (JErr ''Error'' ''text outside the examples'')),
       javascriptStringify = (\<lambda>v. if v = JObj [] then JStr ''{}'' else Undefined),
       EJSON_stringify = (\<lambda>v. if v = JObj [] then JStr ''{}'' else Undefined) \<rparr>"

text \<open>A state a user reaches by editing the fetched rule, its action and its level.\<close>

definition edited_state :: obj where
  "edited_state =
     [(''validator'', JStr ''{ name: 2 }''),
      (''validationAction'', JStr ''error''),
      (''validationLevel'', JStr ''strict''),
      (''isChanged'', JBool True),
      (''syntaxError'', Null),
      (''prevValidator'', JStr ''{ name: 1 }'')]"

definition sample_document :: jsval where
  "sample_document = JObj [(''_id'', JNum 1), (''name'', JStr ''Test'')]"

definition time_limit_error :: jsval where
  "time_limit_error = JErr ''MongoError'' ''operation exceeded time limit''"

definition not_authorized_error :: jsval where
  "not_authorized_error = JErr ''MongoError'' ''not authorized on db to execute command''"

text \<open>
  A data service on which every lookup answers one document, except the find named by
  its filter, which fails; \<open>listCollections\<close> is refused and calls back with the error
  alone, a command is acknowledged.
\<close>

definition service_failing_on :: "jsval \<Rightarrow> dataService" where
  "service_failing_on bad =
     \<lparr> ds_listCollections = (\<lambda>database filter. (not_authorized_error, Undefined)),
       ds_command = (\<lambda>database command. (Null, JObj [(''ok'', JNum 1)])),
       ds_find = (\<lambda>namespace filter options.
                    if filter = bad then (time_limit_error, Undefined)
                    else (Null, JArr [sample_document])),
       ds_count = (\<lambda>namespace filter options. (Null, 1)),
       ds_aggregate = (\<lambda>namespace pipeline options. (Null, Null, JArr [sample_document])) \<rparr>"

definition connected_state :: "dataService \<Rightarrow> store_state" where
  "connected_state service =
     \<lparr> st_dataService = Some service,
       st_namespace =
         JObj [(''ns'', JStr ''db.coll''), (''database'', JStr ''db''),
               (''collection'', JStr ''coll'')],
       st_validation = edited_state,
       st_sampleDocuments = sd_INITIAL_STATE \<rparr>"

section \<open>Basic facts\<close>

lemma js_get_update:
  "js_get (AList.update k v ob) k' = (if k' = k then v else js_get ob k')"
  by (simp add: js_get_def update_conv')

lemmas action_names =
  VALIDATOR_CHANGED_def VALIDATOR_CANCELED_def VALIDATOR_SAVED_def VALIDATOR_CREATED_def
  VALIDATION_ACTION_CHANGED_def VALIDATION_LEVEL_CHANGED_def
  SAMPLE_DOCUMENTS_FETCHED_def LOADING_SAMPLE_DOCUMENTS_def

text \<open>The reducer finds the handler of each action the module's creators build.\<close>

lemma reducer_saved:
  "reducer env (Some s) (validatorSaved v) = Inr (JObj (updateValidator s (validatorSaved v)))"
  by (simp add: reducer_def validatorSaved_def js_get_def table_get_def MAPPINGS_def action_names)

lemma reducer_canceled:
  "reducer env (Some s) validatorCanceled = Inr (JObj (cancelValidator s))"
  by (simp add: reducer_def validatorCanceled_def js_get_def table_get_def MAPPINGS_def
      action_names)

lemma reducer_changed:
  "reducer env (Some s) (validatorChanged v) =
     Inr (JObj (changeValidator env s (validatorChanged v)))"
  by (simp add: reducer_def validatorChanged_def js_get_def table_get_def MAPPINGS_def
      action_names)

lemma reducer_created:
  "reducer env (Some s) (validatorCreated v) =
     Inr (JObj (createValidator env s (validatorCreated v)))"
  by (simp add: reducer_def validatorCreated_def js_get_def table_get_def MAPPINGS_def
      action_names)

lemma reducer_action_changed:
  "reducer env (Some s) (validationActionChanged v) =
     Inr (JObj (changeValidationAction s (validationActionChanged v)))"
  by (simp add: reducer_def validationActionChanged_def js_get_def table_get_def MAPPINGS_def
      action_names)

lemma reducer_level_changed:
  "reducer env (Some s) (validationLevelChanged v) =
     Inr (JObj (changeValidationLevel s (validationLevelChanged v)))"
  by (simp add: reducer_def validationLevelChanged_def js_get_def table_get_def MAPPINGS_def
      action_names)

lemma sd_reducer_loading:
  "sd_reducer (Some s) loadingSampleDocuments = Inr (JObj (loadSampleDocuments s))"
  by (simp add: sd_reducer_def loadingSampleDocuments_def js_get_def table_get_def
      sd_MAPPINGS_def action_names)

lemma sd_reducer_fetched:
  "sd_reducer (Some s) (sampleDocumentsFetched d) =
     Inr (JObj (refreshSampleDocuments s (sampleDocumentsFetched d)))"
  by (simp add: sd_reducer_def sampleDocumentsFetched_def js_get_def table_get_def
      sd_MAPPINGS_def action_names)

lemma checkValidator_syntaxError:
  "js_get (checkValidator env v) ''syntaxError'' =
     (case executeJavascript env v of Inl e \<Rightarrow> e | Inr r \<Rightarrow> Null)"
  by (simp add: checkValidator_def js_get_def split: sum.splits)

lemma checkValidator_validator:
  "js_get (checkValidator env v) ''validator'' =
     (case executeJavascript env v of Inl e \<Rightarrow> v | Inr r \<Rightarrow> r)"
  by (simp add: checkValidator_def js_get_def split: sum.splits)

text \<open>
  The model on a fetch that succeeds: the collection has the validator \<open>{}\<close> and the
  level \<open>strict\<close>; the callback dispatches them with the default action, and the
  created action sets the text and its snapshot.
\<close>

lemma fetched_rule_example:
  "fetchValidation_callback engine Null
     (JArr [JObj [(''name'', JStr ''coll''),
                  (''options'',
                   JObj [(''validator'', JObj []), (''validationLevel'', JStr ''strict'')])]]) =
   ([Dispatch (validatorCreated (JStr ''{}'')),
     Dispatch (validationActionChanged (JStr ''warning'')),
     Dispatch (validationLevelChanged (JStr ''strict''))], None)
   \<and> reducer engine (Some INITIAL_STATE) (validatorCreated (JStr ''{}'')) =
     Inr (JObj
       [(''validator'', JStr ''{}''),
        (''validationAction'', JStr ''warning''),
        (''validationLevel'', JStr ''moderate''),
        (''isChanged'', JBool False),
        (''syntaxError'', Null),
        (''prevValidator'', JStr ''{}'')])"
  by code_simp

section \<open>The saved transition\<close>

text \<open>
  At the edited state, whose text snapshot is \<open>{ name: 1 }\<close>, saving \<open>{ name: 2 }\<close>
  leaves the snapshot as it was, writes no \<open>prevValidation\<close> and no \<open>error\<close>.
\<close>

theorem saved_leaves_snapshot_stale:
  "reducer engine (Some edited_state) (validatorSaved (JStr ''{ name: 2 }'')) =
     Inr (JObj (updateValidator edited_state (validatorSaved (JStr ''{ name: 2 }''))))
   \<and> js_get (updateValidator edited_state (validatorSaved (JStr ''{ name: 2 }'')))
        ''prevValidation'' = Undefined
   \<and> js_get (updateValidator edited_state (validatorSaved (JStr ''{ name: 2 }'')))
        ''prevValidator'' = JStr ''{ name: 1 }''
   \<and> js_get (updateValidator edited_state (validatorSaved (JStr ''{ name: 2 }'')))
        ''error'' = Undefined"
  by code_simp

text \<open>
  C1, as the code has it. For every state \<open>s\<close> and every saved-validator action, the SAVED
  transition of the validation reducer returns \<open>s\<close> with \<open>isChanged = false\<close>,
  \<open>syntaxError = null\<close> and \<open>validator\<close> set to the action's validator, and with every
  other property as in \<open>s\<close>: \<open>error\<close>, the snapshot (\<open>prevValidator\<close>,
  \<open>prevValidation\<close>), \<open>validationAction\<close> and \<open>validationLevel\<close> are not written.
  The handler of the earlier text (part_005) computes the same state.
\<close>

theorem saved_marks_clean_keeps_snapshot:
  "reducer env (Some s) (validatorSaved v) = Inr (JObj (updateValidator s (validatorSaved v)))
   \<and> js_get (updateValidator s (validatorSaved v)) ''isChanged'' = JBool False
   \<and> js_get (updateValidator s (validatorSaved v)) ''syntaxError'' = Null
   \<and> js_get (updateValidator s (validatorSaved v)) ''validator'' = v
   \<and> js_get (updateValidator s (validatorSaved v)) ''error'' = js_get s ''error''
   \<and> js_get (updateValidator s (validatorSaved v)) ''prevValidator'' = js_get s ''prevValidator''
   \<and> js_get (updateValidator s (validatorSaved v)) ''prevValidation'' =
       js_get s ''prevValidation''
   \<and> js_get (updateValidator s (validatorSaved v)) ''validationAction'' =
       js_get s ''validationAction''
   \<and> js_get (updateValidator s (validatorSaved v)) ''validationLevel'' =
       js_get s ''validationLevel''
   \<and> map_of (updateValidator s (validatorSaved v)) =
       (map_of s)(''isChanged'' \<mapsto> JBool False, ''validator'' \<mapsto> v, ''syntaxError'' \<mapsto> Null)
   \<and> p5_saveValidator s (validatorSaved v) = updateValidator s (validatorSaved v)"
proof -
  have a: "js_get (validatorSaved v) ''validator'' = v"
    by (simp add: validatorSaved_def js_get_def)
  show ?thesis
    by (simp add: reducer_saved updateValidator_def p5_saveValidator_def js_get_update
        update_conv' a)
qed

section \<open>The canceled transition\<close>

text \<open>
  At the edited state the action and the level were changed to \<open>error\<close> and \<open>strict\<close>
  after the fetch; the state holds no snapshot of them, and the defaults are \<open>warning\<close>
  and \<open>moderate\<close>. Cancelling restores the text and keeps \<open>error\<close> and \<open>strict\<close>.
\<close>

theorem cancel_keeps_action_and_level:
  "reducer engine (Some edited_state) validatorCanceled = Inr (JObj (cancelValidator edited_state))
   \<and> js_get (cancelValidator edited_state) ''validator'' = JStr ''{ name: 1 }''
   \<and> js_get (cancelValidator edited_state) ''validationAction'' = JStr ''error''
   \<and> js_get (cancelValidator edited_state) ''validationLevel'' = JStr ''strict''
   \<and> js_get edited_state ''prevValidation'' = Undefined
   \<and> js_get INITIAL_STATE ''validationAction'' = JStr ''warning''
   \<and> js_get INITIAL_STATE ''validationLevel'' = JStr ''moderate''"
  by code_simp

text \<open>
  The handler of the earlier text (part_005), whose states hold no snapshot, sets the
  validator text to the initial default, the empty string.
\<close>

lemma p5_cancel_resets_text:
  "map_of (p5_cancelValidator s) =
     (map_of s)(''isChanged'' \<mapsto> JBool False, ''validator'' \<mapsto> JStr [],
                ''syntaxError'' \<mapsto> Null)"
  by (simp add: p5_cancelValidator_def update_conv')

text \<open>
  C2, as the code has it. For every state \<open>s\<close> that holds a text snapshot
  \<open>prevValidator\<close>, the CANCELED transition returns \<open>s\<close> with the validator text equal
  to that snapshot, \<open>isChanged = false\<close> and \<open>syntaxError = null\<close>, and with every other
  property as in \<open>s\<close>: \<open>validationAction\<close> and \<open>validationLevel\<close> are not restored.
  Nothing is said here of a state without a snapshot.
\<close>

theorem cancel_restores_validator_text:
  assumes "map_of s ''prevValidator'' = Some p"
  shows "reducer env (Some s) validatorCanceled = Inr (JObj (cancelValidator s))
   \<and> js_get (cancelValidator s) ''validator'' = p
   \<and> js_get (cancelValidator s) ''isChanged'' = JBool False
   \<and> js_get (cancelValidator s) ''syntaxError'' = Null
   \<and> js_get (cancelValidator s) ''validationAction'' = js_get s ''validationAction''
   \<and> js_get (cancelValidator s) ''validationLevel'' = js_get s ''validationLevel''
   \<and> map_of (cancelValidator s) =
       (map_of s)(''isChanged'' \<mapsto> JBool False, ''validator'' \<mapsto> p, ''syntaxError'' \<mapsto> Null)"
proof -
  from assms have snapshot: "js_get s ''prevValidator'' = p"
    by (simp add: js_get_def)
  show ?thesis
    by (simp add: reducer_canceled cancelValidator_def js_get_update update_conv' snapshot)
qed

theorem cancel_restores_validator_text_witness:
  "map_of edited_state ''prevValidator'' = Some (JStr ''{ name: 1 }'')
   \<and> reducer engine (Some edited_state) validatorCanceled =
       Inr (JObj (cancelValidator edited_state))
   \<and> js_get (cancelValidator edited_state) ''validator'' = JStr ''{ name: 1 }''
   \<and> js_get (cancelValidator edited_state) ''isChanged'' = JBool False
   \<and> js_get (cancelValidator edited_state) ''syntaxError'' = Null
   \<and> js_get (cancelValidator edited_state) ''validationAction'' =
       js_get edited_state ''validationAction''
   \<and> js_get (cancelValidator edited_state) ''validationLevel'' =
       js_get edited_state ''validationLevel''
   \<and> map_of (cancelValidator edited_state) =
       (map_of edited_state)(''isChanged'' \<mapsto> JBool False,
          ''validator'' \<mapsto> JStr ''{ name: 1 }'', ''syntaxError'' \<mapsto> Null)"
proof -
  have snapshot: "map_of edited_state ''prevValidator'' = Some (JStr ''{ name: 1 }'')"
    by (simp add: edited_state_def)
  from cancel_restores_validator_text [OF snapshot, of engine] snapshot
  show ?thesis
    by blast
qed

section \<open>The validator-changed transition on the empty text\<close>

text \<open>
  On an engine that rejects an assignment without a right-hand side, the empty text gets
  a syntax error.
\<close>

theorem empty_text_reports_syntax_error:
  "reducer engine (Some INITIAL_STATE) (validatorChanged (JStr [])) =
     Inr (JObj
       [(''validator'', JStr []),
        (''validationAction'', JStr ''warning''),
        (''validationLevel'', JStr ''moderate''),
        (''isChanged'', JBool True),
        (''syntaxError'', JErr ''SyntaxError'' ''Unexpected end of input'')])"
  by code_simp

text \<open>
  C3, as the code has it. For every state \<open>s\<close>, the validator-changed transition with the
  empty string yields \<open>s\<close> with \<open>isChanged = true\<close>, the validator text empty, and
  \<open>syntaxError\<close> set to whatever the evaluation of the text \<open>__result = \<close> throws,
  \<open>null\<close> only if that evaluation returns: the checker does not short-circuit on the
  empty text, it evaluates it like any other. Every other property is as in \<open>s\<close>.
\<close>

theorem empty_text_is_evaluated:
  "reducer env (Some s) (validatorChanged (JStr [])) =
     Inr (JObj (changeValidator env s (validatorChanged (JStr []))))
   \<and> js_get (changeValidator env s (validatorChanged (JStr []))) ''isChanged'' = JBool True
   \<and> js_get (changeValidator env s (validatorChanged (JStr []))) ''validator'' = JStr []
   \<and> js_get (changeValidator env s (validatorChanged (JStr []))) ''syntaxError'' =
       (case evaluate env ''__result = '' of Inl e \<Rightarrow> e | Inr r \<Rightarrow> Null)
   \<and> map_of (changeValidator env s (validatorChanged (JStr []))) =
       (map_of s)(''isChanged'' \<mapsto> JBool True, ''validator'' \<mapsto> JStr [],
          ''syntaxError'' \<mapsto> (case evaluate env ''__result = '' of Inl e \<Rightarrow> e | Inr r \<Rightarrow> Null))"
proof -
  have a: "js_get (validatorChanged (JStr [])) ''validator'' = JStr []"
    by (simp add: validatorChanged_def js_get_def)
  have b: "executeJavascript env (JStr []) = evaluate env ''__result = ''"
    by (simp add: executeJavascript_def)
  show ?thesis
    by (simp add: reducer_changed changeValidator_def js_get_update update_conv' a
        checkValidator_syntaxError b)
qed

section \<open>Changing the action and the level\<close>

text \<open>From the initial state, which is not changed, both transitions leave \<open>isChanged\<close> false.\<close>

theorem action_change_leaves_clean:
  "reducer engine (Some INITIAL_STATE) (validationActionChanged (JStr ''error'')) =
     Inr (JObj
       [(''validator'', JStr []),
        (''validationAction'', JStr ''error''),
        (''validationLevel'', JStr ''moderate''),
        (''isChanged'', JBool False),
        (''syntaxError'', Null)])
   \<and> reducer engine (Some INITIAL_STATE) (validationLevelChanged (JStr ''strict'')) =
     Inr (JObj
       [(''validator'', JStr []),
        (''validationAction'', JStr ''warning''),
        (''validationLevel'', JStr ''strict''),
        (''isChanged'', JBool False),
        (''syntaxError'', Null)])"
  by code_simp

text \<open>
  C7, as the code has it. For every state \<open>s\<close>, the ACTION_CHANGED and LEVEL_CHANGED
  transitions set \<open>validationAction\<close> (respectively \<open>validationLevel\<close>) to the action's
  value and leave every other property, \<open>isChanged\<close> included, as in \<open>s\<close>.
\<close>

theorem action_and_level_change_keep_isChanged:
  "reducer env (Some s) (validationActionChanged v) =
     Inr (JObj (changeValidationAction s (validationActionChanged v)))
   \<and> js_get (changeValidationAction s (validationActionChanged v)) ''validationAction'' = v
   \<and> js_get (changeValidationAction s (validationActionChanged v)) ''isChanged'' =
       js_get s ''isChanged''
   \<and> map_of (changeValidationAction s (validationActionChanged v)) =
       (map_of s)(''validationAction'' \<mapsto> v)
   \<and> reducer env (Some s) (validationLevelChanged w) =
       Inr (JObj (changeValidationLevel s (validationLevelChanged w)))
   \<and> js_get (changeValidationLevel s (validationLevelChanged w)) ''validationLevel'' = w
   \<and> js_get (changeValidationLevel s (validationLevelChanged w)) ''isChanged'' =
       js_get s ''isChanged''
   \<and> map_of (changeValidationLevel s (validationLevelChanged w)) =
       (map_of s)(''validationLevel'' \<mapsto> w)"
proof -
  have a: "js_get (validationActionChanged v) ''validationAction'' = v"
    by (simp add: validationActionChanged_def js_get_def)
  have b: "js_get (validationLevelChanged w) ''validationLevel'' = w"
    by (simp add: validationLevelChanged_def js_get_def)
  show ?thesis
    by (simp add: reducer_action_changed reducer_level_changed changeValidationAction_def
        changeValidationLevel_def js_get_update update_conv' a b)
qed

section \<open>Actions the tables do not register\<close>

text \<open>
  A key that no table registers and \<open>Object.prototype\<close> does not define is not found;
  \<open>constructor\<close> is found there and gives the state back.
\<close>

lemma table_get_unregistered:
  assumes "k \<notin> set Object_prototype_names \<or> k = ''constructor''"
    and "k \<notin> set (map fst tbl)"
  shows "table_get tbl k = Missing \<or> table_get tbl k = Inherited ''constructor''"
proof -
  from assms(2) have "map_of tbl k = None"
    by (simp add: map_of_eq_None_iff)
  with assms(1) show ?thesis
    by (auto simp add: table_get_def)
qed

text \<open>
  For every state and every action whose type, as a property key, is neither registered in
  the module's table nor the name of a member inherited from \<open>Object.prototype\<close>, other
  than \<open>constructor\<close>, the two reducers return the state itself, and the initial state
  when the state is \<open>undefined\<close>.
\<close>

lemma unregistered_action_is_identity:
  assumes "to_string (js_get action ''type'') = Inr k"
    and "k \<notin> set Object_prototype_names \<or> k = ''constructor''"
  shows "(k \<notin> set (map fst MAPPINGS) \<longrightarrow>
            reducer env (Some s) action = Inr (JObj s)
            \<and> reducer env None action = Inr (JObj INITIAL_STATE))
       \<and> (k \<notin> set (map fst sd_MAPPINGS) \<longrightarrow>
            sd_reducer (Some t) action = Inr (JObj t)
            \<and> sd_reducer None action = Inr (JObj sd_INITIAL_STATE))"
proof -
  have inherited: "call_inherited ''constructor'' v = Inr v" for v
    by (simp add: call_inherited_def)
  from assms(2) have
    "k \<notin> set (map fst MAPPINGS) \<Longrightarrow>
       table_get MAPPINGS k = Missing \<or> table_get MAPPINGS k = Inherited ''constructor''"
    by (rule table_get_unregistered)
  moreover
  from assms(2) have
    "k \<notin> set (map fst sd_MAPPINGS) \<Longrightarrow>
       table_get sd_MAPPINGS k = Missing \<or> table_get sd_MAPPINGS k = Inherited ''constructor''"
    by (rule table_get_unregistered)
  ultimately show ?thesis
    using assms(1) by (auto simp add: reducer_def sd_reducer_def inherited)
qed

text \<open>The unknown actions of the repository's tests, and \<open>constructor\<close>.\<close>

lemma unknown_action_examples:
  "reducer engine None [(''type'', JStr ''test'')] = Inr (JObj INITIAL_STATE)
   \<and> reducer engine (Some edited_state) [(''type'', JStr ''UNKNOWN'')] = Inr (JObj edited_state)
   \<and> sd_reducer (Some sd_INITIAL_STATE) [(''type'', JStr ''test'')] = Inr (JObj sd_INITIAL_STATE)
   \<and> reducer engine (Some edited_state) [(''type'', JStr ''constructor'')] =
       Inr (JObj edited_state)
   \<and> sd_reducer None [(''type'', JStr ''constructor'')] = Inr (JObj sd_INITIAL_STATE)"
  by code_simp

text \<open>
  C10 says: for every state \<open>s\<close> and every dispatched action whose type is not registered
  in the module's mapping table, the validation reducer and the sample-documents reducer
  return \<open>s\<close> itself, and never throw. The code does not: \<open>toString\<close> and \<open>valueOf\<close>
  are keys of neither table, yet \<open>MAPPINGS[action.type]\<close> finds the members inherited
  from \<open>Object.prototype\<close> and \<open>fn ? fn(state, action) : state\<close> calls them. On
  \<open>toString\<close> the validation reducer returns a string instead of the state, on
  \<open>valueOf\<close> the sample-documents reducer throws.
\<close>

theorem inherited_name_is_called:
  "''toString'' \<notin> set (map fst MAPPINGS)
   \<and> reducer engine (Some INITIAL_STATE) [(''type'', JStr ''toString'')] =
       Inr (JStr ''[object Undefined]'')
   \<and> ''valueOf'' \<notin> set (map fst sd_MAPPINGS)
   \<and> sd_reducer (Some sd_INITIAL_STATE) [(''type'', JStr ''valueOf'')] =
       Inl (TypeError ''Cannot convert undefined or null to object'')"
  by code_simp

section \<open>Checking a validator twice\<close>




section \<open>Runs of thunks\<close>

lemma dispatched_simps:
  "dispatched (finished es) = concat (map (\<lambda>e. case e of Dispatch a \<Rightarrow> [a] | _ \<Rightarrow> []) es)"
  "dispatched (threw e) = []"
  "dispatched (prefixed es r) =
     concat (map (\<lambda>e. case e of Dispatch a \<Rightarrow> [a] | _ \<Rightarrow> []) es) @ dispatched r"
  by (simp_all add: dispatched_def finished_def threw_def prefixed_def)

lemma thrown_simps:
  "snd (finished es) = None"
  "snd (threw e) = Some e"
  "snd (prefixed es r) = snd r"
  by (simp_all add: finished_def threw_def prefixed_def)

lemma number_to_string_0: "number_to_string 0 = ''0''"
  by code_simp

section \<open>Sample documents: a lookup that fails\<close>

subsection \<open>The first text drops the failure\<close>

lemma p3_matching_failure:
  "truthy matchingError \<Longrightarrow>
     p3_matching_callback ds ns q matchingError matching = finished []"
  by (simp add: p3_matching_callback_def)

lemma p3_notmatching_failure:
  "\<not> truthy matchingError \<Longrightarrow>
   truthy (fst (ds_find ds ns (JObj [(''$nor'', JArr [q])]) OPTIONS)) \<Longrightarrow>
     p3_matching_callback ds ns q matchingError matching =
       finished [Find ns (JObj [(''$nor'', JArr [q])]) OPTIONS]"
  by (simp add: p3_matching_callback_def p3_notmatching_callback_def Let_def prefixed_def
      finished_def)

text \<open>
  Whatever the validator and the service: when one of the two finds answers with an
  error, the fetch of the first text dispatches the loading action and nothing else.
\<close>

lemma p3_failure_dispatches_only_loading:
  assumes ds: "st_dataService state = Some ds"
    and ns: "get_prop (st_namespace state) ''ns'' = Inr ns"
    and failure: "truthy (fst (ds_find ds ns (sample_query env validator) OPTIONS))
       \<or> truthy (fst (ds_find ds ns (JObj [(''$nor'', JArr [sample_query env validator])])
                         OPTIONS))"
  shows "dispatched (p3_fetchSampleDocuments env validator state) = [loadingSampleDocuments]
       \<and> snd (p3_fetchSampleDocuments env validator state) = None"
proof -
  define q where "q = sample_query env validator"
  define r where "r = p3_matching_callback ds ns q (fst (ds_find ds ns q OPTIONS))
                        (snd (ds_find ds ns q OPTIONS))"
  have run: "p3_fetchSampleDocuments env validator state =
               prefixed [Dispatch loadingSampleDocuments] (prefixed [Find ns q OPTIONS] r)"
    by (simp add: p3_fetchSampleDocuments_def ds ns Let_def q_def r_def)
  have "dispatched r = [] \<and> snd r = None"
  proof (cases "truthy (fst (ds_find ds ns q OPTIONS))")
    case True
    then show ?thesis
      by (simp add: r_def p3_matching_failure dispatched_simps thrown_simps)
  next
    case False
    with failure have "truthy (fst (ds_find ds ns (JObj [(''$nor'', JArr [q])]) OPTIONS))"
      by (simp add: q_def)
    with False show ?thesis
      by (simp add: r_def p3_notmatching_failure dispatched_simps thrown_simps)
  qed
  then show ?thesis
    by (simp add: run dispatched_simps thrown_simps)
qed

text \<open>
  C4 says: for every sample-documents fetch in which the matching lookup or the negation
  lookup fails, the fetch settles with \<open>matching = null\<close>, \<open>notmatching = null\<close> and a
  surfaced error. The fetch of the first text (part_003) does not: with a service whose
  negation lookup fails, the whole run is the loading action and the two finds. No
  \<open>SAMPLE_DOCUMENTS_FETCHED\<close> resets the pair and no action carries the error.
\<close>

theorem p3_negation_failure_is_dropped:
  "p3_fetchSampleDocuments engine (JStr ''{}'')
     (connected_state (service_failing_on (JObj [(''$nor'', JArr [JObj []])]))) =
   ([Dispatch loadingSampleDocuments,
     Find (JStr ''db.coll'') (JObj []) OPTIONS,
     Find (JStr ''db.coll'') (JObj [(''$nor'', JArr [JObj []])]) OPTIONS], None)"
  by code_simp

text \<open>
  C5 says: for every invocation of \<open>fetchSampleDocuments\<close>, \<open>isLoading\<close> is set to true at
  request time and set back to false exactly once when the fetch settles, and no error
  path leaves it true. The fetch of the first text (part_003) does not: with a service
  whose find fails, the run dispatches the loading action, which sets \<open>isLoading\<close> to
  true, and nothing after it.
\<close>

theorem p3_failing_find_leaves_loading:
  "p3_fetchSampleDocuments engine (JStr ''{}'') (connected_state (service_failing_on (JObj []))) =
     ([Dispatch loadingSampleDocuments, Find (JStr ''db.coll'') (JObj []) OPTIONS], None)
   \<and> sd_reducer (Some sd_INITIAL_STATE) loadingSampleDocuments =
       Inr (JObj
         [(''matching'', Null),
          (''notmatching'', Null),
          (''isLoading'', JBool True),
          (''type'', JStr LOADING_SAMPLE_DOCUMENTS)])"
  by code_simp

subsection \<open>The second text settles every failure\<close>

lemma dispatch_fetched_cases:
  "(\<exists>e. dispatch_fetched m n = threw e)
   \<or> (\<exists>d. dispatch_fetched m n = finished [Dispatch (sampleDocumentsFetched d)])"
proof (cases "get_index m 0")
  case (Inl e)
  then have "dispatch_fetched m n = threw e"
    by (simp add: dispatch_fetched_def)
  then show ?thesis
    by blast
next
  case m0: (Inr m0)
  show ?thesis
  proof (cases "get_index n 0")
    case (Inl e)
    with m0 have "dispatch_fetched m n = threw e"
      by (simp add: dispatch_fetched_def)
    then show ?thesis
      by blast
  next
    case (Inr n0)
    with m0 have "dispatch_fetched m n =
        finished [Dispatch (sampleDocumentsFetched
          [(''matching'', if truthy m0 then m0 else Null),
           (''notmatching'', if truthy n0 then n0 else Null)])]"
      by (simp add: dispatch_fetched_def)
    then show ?thesis
      by blast
  qed
qed

lemma zeroDocuments_run:
  "dispatched (zeroDocuments se e) =
     [se e, sampleDocumentsFetched [(''matching'', Null), (''notmatching'', Null)]]"
  "snd (zeroDocuments se e) = None"
  by (simp_all add: zeroDocuments_def dispatched_simps thrown_simps)

lemma getSampleDocuments_cases:
  "(\<exists>e. truthy e
        \<and> dispatched (getSampleDocuments se ds ns count pipeline callback) =
            dispatched (zeroDocuments se e)
        \<and> snd (getSampleDocuments se ds ns count pipeline callback) = None)
   \<or> (\<exists>documents.
          dispatched (getSampleDocuments se ds ns count pipeline callback) =
            dispatched (callback documents)
        \<and> snd (getSampleDocuments se ds ns count pipeline callback) = snd (callback documents))"
proof -
  define limited where
    "limited = (if count > MAX_LIMIT then JObj [(''$limit'', JNum MAX_LIMIT)] # pipeline
                else pipeline)"
  define answer where "answer = ds_aggregate ds ns limited [(''allowDiskUse'', JBool True)]"
  have run: "getSampleDocuments se ds ns count pipeline callback =
      prefixed [Aggregate ns limited [(''allowDiskUse'', JBool True)]]
           (if truthy (fst answer) then zeroDocuments se (fst answer)
            else if truthy (fst (snd answer)) then zeroDocuments se (fst (snd answer))
            else prefixed [CursorClose] (callback (snd (snd answer))))"
    by (simp add: getSampleDocuments_def Let_def limited_def answer_def)
  show ?thesis
  proof (cases "truthy (fst answer)")
    case True
    then show ?thesis
      by (intro disjI1 exI [of _ "fst answer"])
         (simp add: run dispatched_simps thrown_simps zeroDocuments_run)
  next
    case agg: False
    show ?thesis
    proof (cases "truthy (fst (snd answer))")
      case True
      with agg show ?thesis
        by (intro disjI1 exI [of _ "fst (snd answer)"])
           (simp add: run dispatched_simps thrown_simps zeroDocuments_run)
    next
      case False
      with agg show ?thesis
        by (intro disjI2 exI [of _ "snd (snd answer)"])
           (simp add: run dispatched_simps thrown_simps)
    qed
  qed
qed

text \<open>
  With a data service and a namespace, a fetch of the second text that does not throw
  dispatches, after the loading action, either one \<open>SAMPLE_DOCUMENTS_FETCHED\<close> (both
  lookups answered) or the error of the failed count, aggregation or \<open>toArray\<close> followed
  by one \<open>SAMPLE_DOCUMENTS_FETCHED\<close> with both documents \<open>null\<close>.
\<close>

lemma p4_failure_settles:
  assumes ds: "st_dataService state = Some ds"
    and ns: "get_prop (st_namespace state) ''ns'' = Inr ns"
    and no_throw: "snd (p4_fetchSampleDocuments env se validator state) = None"
  shows "(\<exists>d. dispatched (p4_fetchSampleDocuments env se validator state) =
              [loadingSampleDocuments, sampleDocumentsFetched d])
       \<or> (\<exists>e. truthy e \<and> dispatched (p4_fetchSampleDocuments env se validator state) =
              [loadingSampleDocuments, se e,
               sampleDocumentsFetched [(''matching'', Null), (''notmatching'', Null)]])"
proof -
  define q where "q = sample_query env validator"
  define count where "count = snd (ds_count ds ns q [])"
  define second where "second = (\<lambda>matching.
     getSampleDocuments se ds ns count
       [JObj [(''$match'', JObj [(''$nor'', JArr [q])])], JObj [(''$limit'', JNum 1)]]
       (\<lambda>notmatching. dispatch_fetched matching notmatching))"
  define first where "first =
     getSampleDocuments se ds ns count [JObj [(''$match'', q)], JObj [(''$limit'', JNum 1)]] second"
  define body where "body =
     (if truthy (fst (ds_count ds ns q [])) then zeroDocuments se (fst (ds_count ds ns q []))
      else first)"
  have run: "p4_fetchSampleDocuments env se validator state =
      prefixed [Dispatch loadingSampleDocuments] (prefixed [Count ns q []] body)"
    by (simp add: p4_fetchSampleDocuments_def ds ns Let_def q_def count_def second_def
        first_def body_def)
  from no_throw have body_ok: "snd body = None"
    by (simp add: run thrown_simps)
  have "(\<exists>d. dispatched body = [sampleDocumentsFetched d])
      \<or> (\<exists>e. truthy e \<and> dispatched body = dispatched (zeroDocuments se e))"
  proof (cases "truthy (fst (ds_count ds ns q []))")
    case True
    then show ?thesis
      by (auto simp add: body_def)
  next
    case False
    then have body: "body = first"
      by (simp add: body_def)
    from getSampleDocuments_cases [of se ds ns count
        "[JObj [(''$match'', q)], JObj [(''$limit'', JNum 1)]]" second]
    consider e where "truthy e" "dispatched first = dispatched (zeroDocuments se e)"
      | m where "dispatched first = dispatched (second m)" "snd first = snd (second m)"
      by (auto simp add: first_def)
    then show ?thesis
    proof cases
      case 1
      then show ?thesis
        by (auto simp add: body)
    next
      case 2
      from getSampleDocuments_cases [of se ds ns count
          "[JObj [(''$match'', JObj [(''$nor'', JArr [q])])], JObj [(''$limit'', JNum 1)]]"
          "\<lambda>notmatching. dispatch_fetched m notmatching"]
      consider e where "truthy e" "dispatched (second m) = dispatched (zeroDocuments se e)"
        | n where "dispatched (second m) = dispatched (dispatch_fetched m n)"
            "snd (second m) = snd (dispatch_fetched m n)"
        by (auto simp add: second_def)
      then show ?thesis
      proof cases
        case 1
        with 2 show ?thesis
          by (auto simp add: body)
      next
        case inner: 2
        from body_ok 2 inner have "snd (dispatch_fetched m n) = None"
          by (simp add: body)
        with dispatch_fetched_cases [of m n]
        obtain d where "dispatch_fetched m n = finished [Dispatch (sampleDocumentsFetched d)]"
          by (auto simp add: thrown_simps)
        with 2 inner show ?thesis
          by (auto simp add: body dispatched_simps)
      qed
    qed
  qed
  then show ?thesis
    by (auto simp add: run dispatched_simps zeroDocuments_run)
qed

text \<open>The reducer then sets \<open>isLoading\<close> back to false.\<close>

lemma fetched_clears_loading:
  "sd_reducer (Some s) (sampleDocumentsFetched d) =
     Inr (JObj (refreshSampleDocuments s (sampleDocumentsFetched d)))
   \<and> js_get (refreshSampleDocuments s (sampleDocumentsFetched d)) ''isLoading'' = JBool False
   \<and> js_get (refreshSampleDocuments s (sampleDocumentsFetched d)) ''matching'' =
       js_get d ''matching''
   \<and> js_get (refreshSampleDocuments s (sampleDocumentsFetched d)) ''notmatching'' =
       js_get d ''notmatching''"
proof -
  have "js_get (sampleDocumentsFetched d) ''matching'' = js_get d ''matching''"
    and "js_get (sampleDocumentsFetched d) ''notmatching'' = js_get d ''notmatching''"
    by (simp_all add: sampleDocumentsFetched_def js_get_def)
  then show ?thesis
    by (simp add: sd_reducer_fetched refreshSampleDocuments_def js_get_update)
qed

text \<open>
  The query both texts send: when the validator text evaluates to a document and the
  engine rejects \<open>[object Object]\<close>, the second check fails to evaluate the document,
  keeps it, and the query is the document.
\<close>

lemma sample_query_of_document:
  assumes "evaluate env (''__result = '' @ t) = Inr (JObj d)"
    and "''toString'' \<notin> set (map fst d)"
    and "evaluate env ''__result = [object Object]'' = Inl e"
  shows "sample_query env (JStr t) = JObj d"
proof -
  have first: "js_get (checkValidator env (JStr t)) ''validator'' = JObj d"
    using assms(1) by (simp add: checkValidator_validator executeJavascript_def)
  have "executeJavascript env (JObj d) = Inl e"
    using assms(2,3) by (simp add: executeJavascript_def)
  then have "js_get (checkValidator env (JObj d)) ''validator'' = JObj d"
    by (simp add: checkValidator_validator)
  with first show ?thesis
    by (simp add: sample_query_def Let_def)
qed

section \<open>Fetching the validation: an answer without data\<close>

text \<open>
  Both texts of the callback read \<open>data[0].options\<close> before they look at the error. When
  \<open>listCollections\<close> answers without data, or with no collection, the read throws.
\<close>

lemma fetchValidation_callback_throws:
  "fetchValidation_callback env error Undefined =
     threw (TypeError ''Cannot read property 0 of undefined'')"
  "fetchValidation_callback env error (JArr []) =
     threw (TypeError ''Cannot read property options of undefined'')"
  "p5_fetchValidation_callback error Undefined =
     threw (TypeError ''Cannot read property 0 of undefined'')"
  "p5_fetchValidation_callback error (JArr []) =
     threw (TypeError ''Cannot read property options of undefined'')"
  by (simp_all add: fetchValidation_callback_def p5_fetchValidation_callback_def get_index_def
      get_prop_def number_to_string_0)

text \<open>
  When the data has a first entry, an error or missing options make the callback dispatch
  the defaults of the initial state; no dispatched action carries the error.
\<close>

lemma fetchValidation_callback_defaults:
  assumes "get_index data 0 = Inr d0" and "get_prop d0 ''options'' = Inr options"
    and "truthy error \<or> options = Undefined \<or> options = Null"
  shows "fetchValidation_callback env error data =
     finished
       [Dispatch (validatorCreated (EJSON_stringify env (JStr []))),
        Dispatch (validationActionChanged (JStr ''warning'')),
        Dispatch (validationLevelChanged (JStr ''moderate''))]"
  using assms
  by (auto simp add: fetchValidation_callback_def INITIAL_STATE_def js_get_def)

text \<open>
  C6 says: for every fetch of the current validation that fails, the top-level error is
  set, the other validation fields fall back to their defaults, and no exception escapes
  the callback. The code does not: when \<open>listCollections\<close> answers with an error and no
  data, the callback of \<open>fetchValidation\<close> throws a TypeError before it dispatches
  anything, and so does the callback of the earlier text (part_005).
\<close>

theorem fetchValidation_error_answer_throws:
  "fetchValidation engine (JObj [(''database'', JStr ''db''), (''collection'', JStr ''coll'')])
     (connected_state (service_failing_on Null)) =
   ([ListCollections (JStr ''db'') [(''name'', JStr ''coll'')]],
    Some (TypeError ''Cannot read property 0 of undefined''))
   \<and> p5_fetchValidation_callback not_authorized_error Undefined =
   ([], Some (TypeError ''Cannot read property 0 of undefined''))"
  by code_simp

section \<open>Saving the validation: the command\<close>

text \<open>
  Whatever the state holds as \<open>validationAction\<close> and \<open>validationLevel\<close>, the command
  has the three keys \<open>collMod\<close>, \<open>validator\<close> and \<open>validationLevel\<close>, the last one with
  the constant \<open>moderate\<close>.
\<close>

lemma saveValidation_command:
  assumes "st_dataService state = Some ds"
    and "get_prop (st_namespace state) ''database'' = Inr database"
  shows "hd (fst (saveValidation env validator state)) =
     Command database
       [(''collMod'', js_member (st_namespace state) ''collection''),
        (''validator'', js_get (checkValidator env validator) ''validator''),
        (''validationLevel'', JStr ''moderate'')]"
  using assms
  by (simp add: saveValidation_def Let_def prefixed_def)

text \<open>
  C8 says: for every save request, the command sent to the store carries the validator,
  checked, and the \<open>validationAction\<close> and \<open>validationLevel\<close> of the current state. The
  code does not: in a state whose action is \<open>error\<close> and whose level is \<open>strict\<close>, the
  command of \<open>saveValidation\<close> has no \<open>validationAction\<close> and its \<open>validationLevel\<close> is
  \<open>moderate\<close>.
\<close>

theorem saveValidation_sends_moderate_without_action:
  "js_get (st_validation (connected_state (service_failing_on Null))) ''validationAction'' =
     JStr ''error''
   \<and> js_get (st_validation (connected_state (service_failing_on Null))) ''validationLevel'' =
     JStr ''strict''
   \<and> saveValidation engine (JStr ''{}'') (connected_state (service_failing_on Null)) =
   ([Command (JStr ''db'')
       [(''collMod'', JStr ''coll''),
        (''validator'', JObj []),
        (''validationLevel'', JStr ''moderate'')],
     ConsoleLog (JStr ''error----------------------''),
     ConsoleLog Null,
     ConsoleLog (JStr ''----------------------''),
     ConsoleLog (JStr ''data----------------------''),
     ConsoleLog (JObj [(''ok'', JNum 1)]),
     ConsoleLog (JStr ''----------------------''),
     Dispatch (validatorSaved (JStr ''{}''))],
    None)"
  by code_simp

end
